theory Spec2Isabelle
  imports Main
begin

section \<open>JavaScript values\<close>

text \<open>
  The hooks of \<^verbatim>\<open>src/frontend/src/hooks/useMovies.js\<close> pass JSON-like values around:
  filter values, response bodies, the response objects of the HTTP client and the values
  it rejects with. They are modelled by one datatype. A number is an integer (the values
  the hooks see as \<^verbatim>\<open>limit\<close>, \<^verbatim>\<open>total\<close>, \<^verbatim>\<open>page\<close>, \<^verbatim>\<open>pages\<close>), in the
  range JavaScript prints in plain decimal. A string is a list of characters, one per
  UTF-16 code unit, so the model covers the strings whose code units are below 256; its
  \<open>length\<close> is the JavaScript \<^verbatim>\<open>length\<close>. An object is the list of its own enumerable
  properties in the order of \<^verbatim>\<open>Object.entries\<close>.
\<close>

datatype json =
    JUndefined
  | JNull
  | JBool bool
  | JNum int
  | JStr string
  | JArr "json list"
  | JObj "(string \<times> json) list"

text \<open>Error objects, as far as the code reads them: \<^verbatim>\<open>name\<close> and \<^verbatim>\<open>message\<close>.\<close>

definition js_error :: "string \<Rightarrow> string \<Rightarrow> json" where
  "js_error name msg = JObj [(''name'', JStr name), (''message'', JStr msg)]"

definition TypeError :: "string \<Rightarrow> json" where
  "TypeError msg = js_error ''TypeError'' msg"

definition ReferenceError :: "string \<Rightarrow> json" where
  "ReferenceError x = js_error ''ReferenceError'' (x @ '' is not defined'')"

text \<open>
  Property access \<^verbatim>\<open>v.k\<close>: a TypeError on \<^verbatim>\<open>undefined\<close> and \<^verbatim>\<open>null\<close>, the own
  property of an object, \<^verbatim>\<open>undefined\<close> otherwise (none of the property names the hooks
  read is inherited by a primitive or an array). A thrown value is the left summand.
\<close>

fun get_prop :: "json \<Rightarrow> string \<Rightarrow> json + json" where
  "get_prop JUndefined k =
     Inl (TypeError (''Cannot read properties of undefined (reading '' @ k @ '')''))"
| "get_prop JNull k =
     Inl (TypeError (''Cannot read properties of null (reading '' @ k @ '')''))"
| "get_prop (JObj ps) k = Inr (case map_of ps k of None \<Rightarrow> JUndefined | Some v \<Rightarrow> v)"
| "get_prop v k = Inr JUndefined"

text \<open>Optional chaining \<^verbatim>\<open>v?.k\<close>.\<close>

fun opt_prop :: "json \<Rightarrow> string \<Rightarrow> json" where
  "opt_prop (JObj ps) k = (case map_of ps k of None \<Rightarrow> JUndefined | Some v \<Rightarrow> v)"
| "opt_prop v k = JUndefined"

text \<open>Truthiness, and \<^verbatim>\<open>a || b\<close>.\<close>

fun truthy :: "json \<Rightarrow> bool" where
  "truthy JUndefined = False"
| "truthy JNull = False"
| "truthy (JBool b) = b"
| "truthy (JNum i) = (i \<noteq> 0)"
| "truthy (JStr s) = (s \<noteq> [])"
| "truthy (JArr xs) = True"
| "truthy (JObj ps) = True"

definition js_or :: "json \<Rightarrow> json \<Rightarrow> json" where
  "js_or a b = (if truthy a then a else b)"

subsection \<open>Conversion to string\<close>

fun join :: "string \<Rightarrow> string list \<Rightarrow> string" where
  "join sep [] = []"
| "join sep [x] = x"
| "join sep (x # y # ys) = x @ sep @ join sep (y # ys)"

fun digits :: "nat \<Rightarrow> string" where
  "digits n =
     (if n < 10 then [''0123456789'' ! n]
      else digits (n div 10) @ [''0123456789'' ! (n mod 10)])"

declare digits.simps [simp del]

text \<open>
  \<^verbatim>\<open>String(v)\<close>, which \<^verbatim>\<open>URLSearchParams.append\<close> applies to its arguments.
\<close>

fun js_ToString :: "json \<Rightarrow> string" where
  "js_ToString JUndefined = ''undefined''"
| "js_ToString JNull = ''null''"
| "js_ToString (JBool b) = (if b then ''true'' else ''false'')"
| "js_ToString (JNum i) = (if i < 0 then ''-'' @ digits (nat (- i)) else digits (nat i))"
| "js_ToString (JStr s) = s"
| "js_ToString (JArr xs) =
     join '','' (map (\<lambda>x. if x = JUndefined \<or> x = JNull then [] else js_ToString x) xs)"
| "js_ToString (JObj ps) = ''[object Object]''"

subsection \<open>Percent encoding\<close>

definition hex_digit :: "nat \<Rightarrow> char" where
  "hex_digit n = ''0123456789ABCDEF'' ! (n mod 16)"

definition percent_byte :: "nat \<Rightarrow> string" where
  "percent_byte b = [CHR ''%'', hex_digit (b div 16), hex_digit b]"

text \<open>The UTF-8 bytes of a code unit below 256.\<close>

definition utf8_bytes :: "char \<Rightarrow> nat list" where
  "utf8_bytes c =
     (let n = (of_char c :: nat) in if n < 128 then [n] else [192 + n div 64, 128 + n mod 64])"

definition alphanumeric :: "char \<Rightarrow> bool" where
  "alphanumeric c =
     (c \<in> set ''ABCDEFGHIJKLMNOPQRSTUVWXYZabcdefghijklmnopqrstuvwxyz0123456789'')"

text \<open>
  The \<^verbatim>\<open>application/x-www-form-urlencoded\<close> serialiser behind
  \<^verbatim>\<open>URLSearchParams.prototype.toString\<close>.
\<close>

definition form_encode :: "string \<Rightarrow> string" where
  "form_encode s =
     concat (map (\<lambda>c. if alphanumeric c \<or> c \<in> set ''*-._'' then [c]
                       else if c = CHR '' '' then ''+''
                       else concat (map percent_byte (utf8_bytes c))) s)"

definition URLSearchParams_toString :: "(string \<times> string) list \<Rightarrow> string" where
  "URLSearchParams_toString params =
     join ''&'' (map (\<lambda>(k, v). form_encode k @ ''='' @ form_encode v) params)"

definition encodeURIComponent :: "string \<Rightarrow> string" where
  "encodeURIComponent s =
     concat (map (\<lambda>c. if alphanumeric c \<or> c \<in> set ''-_.!~*'' \<or> c \<in> set [CHR 0x27, CHR ''('', CHR '')'']
                       then [c]
                       else concat (map percent_byte (utf8_bytes c))) s)"

section \<open>Query strings of the list hooks\<close>

text \<open>
  A filter object is the list of its entries, as \<^verbatim>\<open>Object.entries(filters)\<close> gives them.
  A \<^verbatim>\<open>URLSearchParams\<close> object is the list of its name/value pairs.
\<close>

type_synonym filters = "(string \<times> json) list"

text \<open>
  The loop of lines 69-73 and 284-288:
  \<^verbatim>\<open>Object.entries(filters).forEach(([key, value]) => { if (value !== undefined &&
  value !== null && value !== '') params.append(key, value) })\<close>.
\<close>

definition append_filters :: "filters \<Rightarrow> (string \<times> string) list" where
  "append_filters fs =
     foldl (\<lambda>params (key, value).
              if value \<noteq> JUndefined \<and> value \<noteq> JNull \<and> value \<noteq> JStr ''''
              then params @ [(key, js_ToString value)] else params) [] fs"

text \<open>\<^verbatim>\<open>filters.limit\<close>: \<^verbatim>\<open>undefined\<close> when the object has no such property.\<close>

definition filters_limit :: "filters \<Rightarrow> json" where
  "filters_limit fs = (case map_of fs ''limit'' of None \<Rightarrow> JUndefined | Some v \<Rightarrow> v)"

text \<open>
  \<^verbatim>\<open>fetchMovies\<close>, lines 66-76: the loop, then
  \<^verbatim>\<open>params.append('limit', filters.limit || 12)\<close>, and the URL of line 79.
\<close>

definition fetchMovies_params :: "filters \<Rightarrow> (string \<times> string) list" where
  "fetchMovies_params fs =
     append_filters fs @ [(''limit'', js_ToString (js_or (filters_limit fs) (JNum 12)))]"

definition fetchMovies_url :: "filters \<Rightarrow> string" where
  "fetchMovies_url fs = ''/movies?'' @ URLSearchParams_toString (fetchMovies_params fs)"

text \<open>\<^verbatim>\<open>fetchSeries\<close>, lines 282-290: the loop only.\<close>

definition fetchSeries_params :: "filters \<Rightarrow> (string \<times> string) list" where
  "fetchSeries_params fs = append_filters fs"

definition fetchSeries_url :: "filters \<Rightarrow> string" where
  "fetchSeries_url fs = ''/movies/series?'' @ URLSearchParams_toString (fetchSeries_params fs)"

text \<open>The values of the parameters of a given name, in the order of the query string.\<close>

definition params_named :: "string \<Rightarrow> (string \<times> string) list \<Rightarrow> string list" where
  "params_named k params = map snd (filter (\<lambda>p. fst p = k) params)"

section \<open>The memoizing GET wrapper\<close>

text \<open>
  \<^verbatim>\<open>cachedApi.get\<close> is called with no options or with \<^verbatim>\<open>{ signal }\<close>. An
  \<^verbatim>\<open>AbortSignal\<close> has no own enumerable property, so \<^verbatim>\<open>JSON.stringify\<close> prints it as
  an empty object whichever controller it belongs to.
\<close>

datatype options = NoOptions | Signal nat

fun JSON_stringify :: "options \<Rightarrow> string" where
  "JSON_stringify NoOptions = ''{}''"
| "JSON_stringify (Signal c) =
     ''{'' @ [CHR 0x22] @ ''signal'' @ [CHR 0x22] @ '':{}}''"

definition cacheKey :: "string \<Rightarrow> options \<Rightarrow> string" where
  "cacheKey url opts = url @ ''?'' @ JSON_stringify opts"

text \<open>The module-level \<^verbatim>\<open>cache\<close>: key to \<^verbatim>\<open>{ data, timestamp }\<close>.\<close>

type_synonym cache = "string \<rightharpoonup> json \<times> int"

text \<open>
  Lines 21-30, up to the network call: \<open>Some data\<close> is the value the wrapper returns from
  the cache at time \<open>now\<close>; \<open>None\<close> means it goes on to \<^verbatim>\<open>api.get(url, options)\<close>.
\<close>

definition cachedApi_get_cached :: "cache \<Rightarrow> string \<Rightarrow> options \<Rightarrow> int \<Rightarrow> json option" where
  "cachedApi_get_cached c url opts now =
     (case c (cacheKey url opts) of
        None \<Rightarrow> None
      | Some (data, timestamp) \<Rightarrow> if now - timestamp < 300000 then Some data else None)"

text \<open>
  Lines 33-39, after the network call has settled at time \<open>now\<close>: a rejection is thrown on
  and nothing is stored; a response is stored as \<^verbatim>\<open>{ data: response.data, timestamp: now }\<close>
  and returned whole.
\<close>

definition cachedApi_get_settled ::
    "cache \<Rightarrow> string \<Rightarrow> options \<Rightarrow> json + json \<Rightarrow> int \<Rightarrow> cache \<times> (json + json)" where
  "cachedApi_get_settled c url opts outcome now =
     (case outcome of
        Inl err \<Rightarrow> (c, Inl err)
      | Inr response \<Rightarrow>
          (case get_prop response ''data'' of
             Inl e \<Rightarrow> (c, Inl e)
           | Inr d \<Rightarrow> (c(cacheKey url opts \<mapsto> (d, now)), Inr response)))"

text \<open>
  \<^verbatim>\<open>err.response?.data?.message || fallback\<close>, the message every hook stores on failure.
\<close>

definition error_message :: "json \<Rightarrow> string \<Rightarrow> json + json" where
  "error_message err fallback =
     (case get_prop err ''response'' of
        Inl e \<Rightarrow> Inl e
      | Inr r \<Rightarrow> Inr (js_or (opt_prop (opt_prop r ''data'') ''message'') (JStr fallback)))"

section \<open>Hook state\<close>

text \<open>
  The state variables of the hooks, with the names \<^verbatim>\<open>useState\<close> gives them. A hook's
  world is its state, its refs and the GET requests it has sent to the network.
\<close>

record loading_state =
  loading :: bool

record fetch_state = loading_state +
  error :: json

record list_state = fetch_state +
  pagination :: json

record movies_hook = list_state +
  movies :: json
  isDataLoaded :: bool

record series_hook = list_state +
  series :: json

record movie_hook = fetch_state +
  movie :: json

record stats_hook = fetch_state +
  stats :: json

record suggestions_hook = loading_state +
  suggestions :: json

record 'h world =
  hook :: 'h
  network :: "string list"

record 'h list_world = "'h world" +
  isInitialLoadRef :: bool

section \<open>The movies list hook\<close>

text \<open>
  A call of \<^verbatim>\<open>cachedApi.get\<close> that has not returned to \<^verbatim>\<open>fetchMovies\<close> yet: its URL
  and options, whether its controller has been aborted, and the cached value it is about
  to return when it found a fresh cache entry (it then sent nothing to the network).
\<close>

record pending_get =
  req_url :: string
  req_options :: options
  req_aborted :: bool
  req_cached :: "json option"

text \<open>
  One mounted instance of \<^verbatim>\<open>useMovies\<close>: its state, its three refs, the filters of its
  last render, the timers it has set (identifier, due time, and the filters the timer's
  closure holds), the calls awaiting an answer (by the number of their
  \<^verbatim>\<open>AbortController\<close>), and the module's cache.
\<close>

record movies_world = "movies_hook list_world" +
  unhandled :: "json list"
  filters :: filters
  abortControllerRef :: "nat option"
  fetchTimeoutRef :: "nat option"
  timers :: "(nat \<times> int \<times> filters) list"
  timeouts :: nat
  controllers :: nat
  pending :: "(nat \<times> pending_get) list"
  cache :: cache

definition useMovies_mount :: "cache \<Rightarrow> movies_world" where
  "useMovies_mount c =
     \<lparr>hook = \<lparr>loading = True, error = JNull, pagination = JNull,
              movies = JArr [], isDataLoaded = False\<rparr>,
      network = [], isInitialLoadRef = True, unhandled = [], filters = [],
      abortControllerRef = None, fetchTimeoutRef = None, timers = [], timeouts = 0,
      controllers = 0, pending = [], cache = c\<rparr>"

text \<open>\<^verbatim>\<open>controller.abort()\<close> and \<^verbatim>\<open>clearTimeout(id)\<close>.\<close>

definition abort :: "movies_world \<Rightarrow> nat \<Rightarrow> movies_world" where
  "abort w c =
     w\<lparr>pending := map (\<lambda>(i, p). if i = c then (i, p\<lparr>req_aborted := True\<rparr>) else (i, p))
                      (pending w)\<rparr>"

definition clearTimeout :: "movies_world \<Rightarrow> nat \<Rightarrow> movies_world" where
  "clearTimeout w t = w\<lparr>timers := filter (\<lambda>(i, d). i \<noteq> t) (timers w)\<rparr>"

text \<open>
  \<^verbatim>\<open>fetchMovies(isInitial)\<close> up to its \<^verbatim>\<open>await\<close> (lines 54-81), run at time \<open>now\<close> with
  the filters its closure holds.
\<close>

definition fetchMovies :: "movies_world \<Rightarrow> bool \<Rightarrow> filters \<Rightarrow> int \<Rightarrow> movies_world" where
  "fetchMovies w isInitial fs now =
     (let w1 = (case abortControllerRef w of None \<Rightarrow> w | Some c \<Rightarrow> abort w c);
          c = controllers w1;
          w2 = w1\<lparr>abortControllerRef := Some c, controllers := Suc c\<rparr>;
          w3 = (if isInitial then w2\<lparr>hook := (hook w2)\<lparr>loading := True\<rparr>\<rparr> else w2);
          u = fetchMovies_url fs
      in case cachedApi_get_cached (cache w3) u (Signal c) now of
           Some data \<Rightarrow>
             w3\<lparr>pending := pending w3 @
                   [(c, \<lparr>req_url = u, req_options = Signal c, req_aborted = False,
                         req_cached = Some data\<rparr>)]\<rparr>
         | None \<Rightarrow>
             w3\<lparr>network := network w3 @ [u],
                pending := pending w3 @
                   [(c, \<lparr>req_url = u, req_options = Signal c, req_aborted = False,
                         req_cached = None\<rparr>)]\<rparr>)"

text \<open>Lines 83-93: the rest of the \<^verbatim>\<open>try\<close> block, with the value the \<^verbatim>\<open>await\<close> gave.\<close>

definition fetchMovies_try :: "movies_hook \<Rightarrow> json \<Rightarrow> movies_hook \<times> json option" where
  "fetchMovies_try h response =
     (case get_prop response ''data'' of
        Inl e \<Rightarrow> (h, Some e)
      | Inr d \<Rightarrow>
          (case get_prop d ''movies'' of
             Inl e \<Rightarrow> (h, Some e)
           | Inr ms \<Rightarrow>
               (let h1 = h\<lparr>movies := ms\<rparr> in
                case (get_prop d ''total'', get_prop d ''page'', get_prop d ''pages'') of
                  (Inr t, Inr p, Inr ps) \<Rightarrow>
                    (h1\<lparr>pagination := JObj [(''total'', t), (''page'', p), (''pages'', ps)],
                        error := JNull, isDataLoaded := True\<rparr>, None)
                | (Inl e, _, _) \<Rightarrow> (h1, Some e)
                | (_, Inl e, _) \<Rightarrow> (h1, Some e)
                | (_, _, Inl e) \<Rightarrow> (h1, Some e))))"

text \<open>Lines 94-100: the \<^verbatim>\<open>catch\<close> block.\<close>

definition fetchMovies_catch :: "movies_hook \<Rightarrow> json \<Rightarrow> movies_hook \<times> json option" where
  "fetchMovies_catch h err =
     (case get_prop err ''name'' of
        Inl e \<Rightarrow> (h, Some e)
      | Inr n \<Rightarrow>
          if n = JStr ''AbortError'' then (h, None)
          else (case error_message err ''Failed to fetch movies'' of
                  Inl e \<Rightarrow> (h, Some e)
                | Inr m \<Rightarrow> (h\<lparr>error := m\<rparr>, None)))"

text \<open>
  \<^verbatim>\<open>fetchMovies\<close> from its \<^verbatim>\<open>await\<close> on: \<^verbatim>\<open>try\<close>, \<^verbatim>\<open>catch\<close>, then the
  \<^verbatim>\<open>finally\<close> block of lines 101-104. The second component is the value the call
  throws, if any.
\<close>

definition fetchMovies_resume :: "movies_world \<Rightarrow> json + json \<Rightarrow> movies_world \<times> json option" where
  "fetchMovies_resume w outcome =
     (let (h, thrown) =
            (case outcome of
               Inl err \<Rightarrow> fetchMovies_catch (hook w) err
             | Inr response \<Rightarrow>
                 (case fetchMovies_try (hook w) response of
                    (h1, None) \<Rightarrow> (h1, None)
                  | (h1, Some e) \<Rightarrow> fetchMovies_catch h1 e))
      in (w\<lparr>hook := h\<lparr>loading := False\<rparr>, abortControllerRef := None\<rparr>, thrown))"

text \<open>The effect of lines 109-129: its cleanup, and its body.\<close>

definition useMovies_cleanup :: "movies_world \<Rightarrow> movies_world" where
  "useMovies_cleanup w =
     (let w1 = (case fetchTimeoutRef w of None \<Rightarrow> w | Some t \<Rightarrow> clearTimeout w t)
      in case abortControllerRef w1 of None \<Rightarrow> w1 | Some c \<Rightarrow> abort w1 c)"

definition useMovies_effect :: "movies_world \<Rightarrow> filters \<Rightarrow> int \<Rightarrow> movies_world" where
  "useMovies_effect w fs now =
     (if isInitialLoadRef w then (fetchMovies w True fs now)\<lparr>isInitialLoadRef := False\<rparr>
      else
        (let w1 = (case fetchTimeoutRef w of None \<Rightarrow> w | Some t \<Rightarrow> clearTimeout w t);
             t = Suc (timeouts w1)
         in w1\<lparr>fetchTimeoutRef := Some t, timeouts := t,
               timers := timers w1 @ [(t, now + 150, fs)]\<rparr>))"

text \<open>
  What can happen to a mounted hook, each at a time \<^verbatim>\<open>Date.now()\<close>: a render with new
  filters (the first one mounts the hook, a later one runs the cleanup of the previous
  effect first), a timer coming due, a call of \<^verbatim>\<open>refetch\<close>, and the settling of a
  pending call with the outcome of its network request. \<open>None\<close>: the event cannot happen
  in this world (no such timer or call, a timer before its time, or a response to an
  aborted request).
\<close>

datatype event =
    Render filters int
  | Timeout nat int
  | Refetch int
  | Settle nat "json + json" int

definition settle :: "movies_world \<Rightarrow> nat \<Rightarrow> json + json \<Rightarrow> int \<Rightarrow> movies_world option" where
  "settle w c outcome now =
     (case map_of (pending w) c of
        None \<Rightarrow> None
      | Some p \<Rightarrow>
          if req_cached p = None \<and> req_aborted p \<and> isl outcome = False then None
          else
            (let w1 = w\<lparr>pending := filter (\<lambda>(i, q). i \<noteq> c) (pending w)\<rparr>;
                 (c', r) = (case req_cached p of
                              Some data \<Rightarrow> (cache w1, Inr data)
                            | None \<Rightarrow> cachedApi_get_settled (cache w1) (req_url p)
                                        (req_options p) outcome now);
                 (w2, thrown) = fetchMovies_resume (w1\<lparr>cache := c'\<rparr>) r
             in Some (case thrown of
                        None \<Rightarrow> w2
                      | Some e \<Rightarrow> w2\<lparr>unhandled := unhandled w2 @ [e]\<rparr>)))"

fun step :: "movies_world \<Rightarrow> event \<Rightarrow> movies_world option" where
  "step w (Render fs now) =
     Some (useMovies_effect
             ((if isInitialLoadRef w then w else useMovies_cleanup w)\<lparr>filters := fs\<rparr>) fs now)"
| "step w (Timeout t now) =
     (case map_of (timers w) t of
        None \<Rightarrow> None
      | Some (due, fs) \<Rightarrow>
          if now < due then None else Some (fetchMovies (clearTimeout w t) False fs now))"
| "step w (Refetch now) = Some (fetchMovies w False (filters w) now)"
| "step w (Settle c outcome now) = settle w c outcome now"

fun run :: "movies_world \<Rightarrow> event list \<Rightarrow> movies_world option" where
  "run w [] = Some w"
| "run w (e # es) = (case step w e of None \<Rightarrow> None | Some w' \<Rightarrow> run w' es)"

text \<open>The network requests in flight: sent, not aborted, not settled.\<close>

definition in_flight :: "movies_world \<Rightarrow> nat list" where
  "in_flight w =
     map fst (filter (\<lambda>(i, p). req_cached p = None \<and> \<not> req_aborted p) (pending w))"

section \<open>Lexical scope\<close>

text \<open>
  The names the module binds at top level (its imports and its \<^verbatim>\<open>const\<close> declarations),
  and the names of the global object that the module uses. An identifier is resolved
  along a chain of scopes, innermost first; one that no scope binds throws a
  ReferenceError when it is evaluated. The global object is taken to bind none of the
  other identifiers of the file.
\<close>

definition module_scope :: "string list" where
  "module_scope =
     [''useState'', ''useEffect'', ''useCallback'', ''useRef'', ''axios'', ''API_URL'', ''api'',
      ''cache'', ''cachedApi'', ''useMovies'', ''useMovie'', ''useRelatedMovies'',
      ''useSearchSuggestions'', ''useCategories'', ''useStats'', ''useSeries'',
      ''useSeriesDetails'', ''incrementDownloadCount'', ''createMovie'', ''updateMovie'',
      ''deleteMovie'', ''toggleMovieStatus'']"

definition global_scope :: "string list" where
  "global_scope =
     [''console'', ''Date'', ''JSON'', ''Map'', ''Object'', ''URLSearchParams'',
      ''AbortController'', ''performance'', ''setTimeout'', ''clearTimeout'',
      ''encodeURIComponent'']"

definition resolve :: "string list list \<Rightarrow> string \<Rightarrow> json + unit" where
  "resolve chain x = (if x \<in> set (concat chain) then Inr () else Inl (ReferenceError x))"

section \<open>The single movie hook\<close>

text \<open>
  \<^verbatim>\<open>useMovie\<close>, lines 134-162. The scopes at the \<^verbatim>\<open>catch\<close> block of \<^verbatim>\<open>fetchMovie\<close>:
  the block's own \<^verbatim>\<open>err\<close>, the effect callback's \<^verbatim>\<open>fetchMovie\<close>, the hook's
  parameter and state, the module, the global object. (\<^verbatim>\<open>response\<close> is local to the
  \<^verbatim>\<open>try\<close> block.)
\<close>

definition fetchMovie_catch_scope :: "string list list" where
  "fetchMovie_catch_scope =
     [[''err''], [''fetchMovie''],
      [''id'', ''movie'', ''setMovie'', ''loading'', ''setLoading'', ''error'', ''setError''],
      module_scope, global_scope]"

definition useMovie_init :: movie_hook where
  "useMovie_init = \<lparr>loading = True, error = JNull, movie = JNull\<rparr>"

text \<open>\<^verbatim>\<open>fetchMovie\<close> up to its \<^verbatim>\<open>await\<close>: \<^verbatim>\<open>setLoading(true)\<close>, then the GET.\<close>

definition fetchMovie :: "movie_hook world \<Rightarrow> string \<Rightarrow> movie_hook world" where
  "fetchMovie w ident =
     w\<lparr>hook := (hook w)\<lparr>loading := True\<rparr>, network := network w @ [''/movies/'' @ ident]\<rparr>"

text \<open>
  Lines 146-150, the \<^verbatim>\<open>catch\<close> block: the three \<^verbatim>\<open>console.error\<close> calls evaluate
  \<^verbatim>\<open>err.response\<close>, then \<^verbatim>\<open>API_URL\<close> and \<^verbatim>\<open>params\<close>; \<^verbatim>\<open>setError\<close> comes last.
\<close>

definition fetchMovie_catch :: "movie_hook \<Rightarrow> json \<Rightarrow> movie_hook \<times> json option" where
  "fetchMovie_catch h err =
     (case get_prop err ''response'' of
        Inl e \<Rightarrow> (h, Some e)
      | Inr r \<Rightarrow>
          (case resolve fetchMovie_catch_scope ''API_URL'' of
             Inl e \<Rightarrow> (h, Some e)
           | Inr u \<Rightarrow>
               (case resolve fetchMovie_catch_scope ''params'' of
                  Inl e \<Rightarrow> (h, Some e)
                | Inr u' \<Rightarrow>
                    (case error_message err ''Failed to fetch movies'' of
                       Inl e \<Rightarrow> (h, Some e)
                     | Inr m \<Rightarrow> (h\<lparr>error := m\<rparr>, None)))))"

text \<open>
  \<^verbatim>\<open>fetchMovie\<close> from its \<^verbatim>\<open>await\<close> on, with the outcome of the GET: the new state,
  and the value the call throws (its promise rejects with), if any.
\<close>

definition fetchMovie_resume :: "movie_hook \<Rightarrow> json + json \<Rightarrow> movie_hook \<times> json option" where
  "fetchMovie_resume h outcome =
     (let (h1, thrown) =
            (case outcome of
               Inl err \<Rightarrow> fetchMovie_catch h err
             | Inr response \<Rightarrow>
                 (case get_prop response ''data'' of
                    Inl e \<Rightarrow> fetchMovie_catch h e
                  | Inr d \<Rightarrow> (h\<lparr>movie := d, error := JNull\<rparr>, None)))
      in (h1\<lparr>loading := False\<rparr>, thrown))"

section \<open>The statistics hook\<close>

text \<open>
  \<^verbatim>\<open>useStats\<close>, lines 245-268. \<^verbatim>\<open>fetchStats\<close> is a \<^verbatim>\<open>const\<close> of the effect callback
  (line 251). The arrow function \<^verbatim>\<open>() => fetchStats()\<close> of line 267 is written in the
  body of the hook: its scopes are its own (empty), the hook's, the module's and the
  global object's.
\<close>

definition useStats_effect_scope :: "string list" where
  "useStats_effect_scope = [''fetchStats'']"

definition useStats_refetch_scope :: "string list list" where
  "useStats_refetch_scope =
     [[], [''stats'', ''setStats'', ''loading'', ''setLoading'', ''error'', ''setError''],
      module_scope, global_scope]"

definition useStats_init :: stats_hook where
  "useStats_init = \<lparr>loading = True, error = JNull, stats = JNull\<rparr>"

definition fetchStats :: "stats_hook world \<Rightarrow> stats_hook world" where
  "fetchStats w =
     w\<lparr>hook := (hook w)\<lparr>loading := True\<rparr>, network := network w @ [''/categories/stats'']\<rparr>"

definition fetchStats_resume :: "stats_hook \<Rightarrow> json + json \<Rightarrow> stats_hook \<times> json option" where
  "fetchStats_resume h outcome =
     (let catch = (\<lambda>err. case error_message err ''Failed to fetch stats'' of
                            Inl e \<Rightarrow> (h, Some e)
                          | Inr m \<Rightarrow> (h\<lparr>error := m\<rparr>, None));
          (h1, thrown) =
            (case outcome of
               Inl err \<Rightarrow> catch err
             | Inr response \<Rightarrow>
                 (case get_prop response ''data'' of
                    Inl e \<Rightarrow> catch e
                  | Inr d \<Rightarrow> (h\<lparr>stats := d, error := JNull\<rparr>, None)))
      in (h1\<lparr>loading := False\<rparr>, thrown))"

text \<open>
  A call of the returned \<^verbatim>\<open>refetch\<close>: it evaluates the identifier \<^verbatim>\<open>fetchStats\<close> and
  calls it. The result is the world after the call and the value the call throws, if any.
\<close>

definition useStats_refetch :: "stats_hook world \<Rightarrow> stats_hook world \<times> json option" where
  "useStats_refetch w =
     (case resolve useStats_refetch_scope ''fetchStats'' of
        Inl e \<Rightarrow> (w, Some e)
      | Inr u \<Rightarrow> (fetchStats w, None))"

section \<open>The series list hook\<close>

definition useSeries_mount :: "series_hook list_world" where
  "useSeries_mount =
     \<lparr>hook = \<lparr>loading = False, error = JNull, pagination = JNull, series = JArr []\<rparr>,
      network = [], isInitialLoadRef = True\<rparr>"

text \<open>\<^verbatim>\<open>fetchSeries(isInitial)\<close> up to its \<^verbatim>\<open>await\<close>, lines 278-290.\<close>

definition fetchSeries ::
    "series_hook list_world \<Rightarrow> bool \<Rightarrow> filters \<Rightarrow> series_hook list_world" where
  "fetchSeries w isInitial fs =
     (let w1 = (if isInitial then w\<lparr>hook := (hook w)\<lparr>loading := True\<rparr>\<rparr> else w)
      in w1\<lparr>network := network w1 @ [fetchSeries_url fs]\<rparr>)"

text \<open>\<^verbatim>\<open>fetchSeries\<close> from its \<^verbatim>\<open>await\<close> on, lines 291-304.\<close>

definition fetchSeries_resume :: "series_hook \<Rightarrow> json + json \<Rightarrow> series_hook \<times> json option" where
  "fetchSeries_resume h outcome =
     (let catch = (\<lambda>h' err. case error_message err ''Failed to fetch series'' of
                               Inl e \<Rightarrow> (h', Some e)
                             | Inr m \<Rightarrow> (h'\<lparr>error := m\<rparr>, None));
          (h1, thrown) =
            (case outcome of
               Inl err \<Rightarrow> catch h err
             | Inr response \<Rightarrow>
                 (case get_prop response ''data'' of
                    Inl e \<Rightarrow> catch h e
                  | Inr d \<Rightarrow>
                      (case get_prop d ''series'' of
                         Inl e \<Rightarrow> catch h e
                       | Inr ss \<Rightarrow>
                           (let h2 = h\<lparr>series := ss\<rparr> in
                            case (get_prop d ''total'', get_prop d ''page'', get_prop d ''pages'') of
                              (Inr t, Inr p, Inr ps) \<Rightarrow>
                                (h2\<lparr>pagination :=
                                       JObj [(''total'', t), (''page'', p), (''pages'', ps)],
                                    error := JNull\<rparr>, None)
                            | (Inl e, _, _) \<Rightarrow> catch h2 e
                            | (_, Inl e, _) \<Rightarrow> catch h2 e
                            | (_, _, Inl e) \<Rightarrow> catch h2 e))))
      in (h1\<lparr>loading := False\<rparr>, thrown))"

text \<open>
  The effect of lines 307-312, run after the render with filters \<open>fs\<close>, and the
  \<^verbatim>\<open>refetch\<close> of line 314.
\<close>

definition useSeries_effect :: "series_hook list_world \<Rightarrow> filters \<Rightarrow> series_hook list_world" where
  "useSeries_effect w fs =
     (if isInitialLoadRef w then fetchSeries (w\<lparr>isInitialLoadRef := False\<rparr>) True fs else w)"

definition useSeries_refetch :: "series_hook list_world \<Rightarrow> filters \<Rightarrow> series_hook list_world" where
  "useSeries_refetch w fs = fetchSeries w False fs"

section \<open>The search suggestions hook\<close>

text \<open>
  \<^verbatim>\<open>useSearchSuggestions\<close>, lines 191-218. The query is \<open>None\<close> when the caller passes
  \<^verbatim>\<open>undefined\<close> or \<^verbatim>\<open>null\<close>. \<^verbatim>\<open>fetchSuggestions\<close> runs when the 300 ms timer of the
  effect comes due.
\<close>

definition useSearchSuggestions_init :: "suggestions_hook world" where
  "useSearchSuggestions_init =
     \<lparr>hook = \<lparr>loading = False, suggestions = JArr []\<rparr>, network = []\<rparr>"

text \<open>Lines 197-204: the guard, \<^verbatim>\<open>setLoading(true)\<close> and the GET.\<close>

definition fetchSuggestions ::
    "suggestions_hook world \<Rightarrow> string option \<Rightarrow> suggestions_hook world" where
  "fetchSuggestions w query =
     (case query of
        None \<Rightarrow> w\<lparr>hook := (hook w)\<lparr>suggestions := JArr []\<rparr>\<rparr>
      | Some q \<Rightarrow>
          if q = [] \<or> length q < 2 then w\<lparr>hook := (hook w)\<lparr>suggestions := JArr []\<rparr>\<rparr>
          else w\<lparr>hook := (hook w)\<lparr>loading := True\<rparr>,
                 network := network w @
                   [''/movies/search-suggestions?q='' @ encodeURIComponent q]\<rparr>)"

text \<open>Lines 205-210, with the outcome of the GET.\<close>

definition fetchSuggestions_resume ::
    "suggestions_hook \<Rightarrow> json + json \<Rightarrow> suggestions_hook \<times> json option" where
  "fetchSuggestions_resume h outcome =
     (let h1 = (case outcome of
                  Inl err \<Rightarrow> h\<lparr>suggestions := JArr []\<rparr>
                | Inr response \<Rightarrow>
                    (case get_prop response ''data'' of
                       Inl e \<Rightarrow> h\<lparr>suggestions := JArr []\<rparr>
                     | Inr d \<Rightarrow> h\<lparr>suggestions := d\<rparr>))
      in (h1\<lparr>loading := False\<rparr>, None))"

section \<open>Evaluation\<close>

lemmas url_defs =
  fetchMovies_url_def fetchMovies_params_def fetchSeries_url_def fetchSeries_params_def
  append_filters_def filters_limit_def js_or_def URLSearchParams_toString_def form_encode_def
  alphanumeric_def digits.simps params_named_def

lemmas movies_defs =
  useMovies_mount_def useMovies_effect_def useMovies_cleanup_def fetchMovies_def
  cachedApi_get_cached_def settle_def cachedApi_get_settled_def fetchMovies_resume_def
  fetchMovies_try_def fetchMovies_catch_def error_message_def abort_def clearTimeout_def
  in_flight_def cacheKey_def js_error_def TypeError_def Let_def

lemmas scope_defs =
  resolve_def module_scope_def global_scope_def ReferenceError_def js_error_def

section \<open>The query string\<close>

text \<open>The loop keeps the entries that pass its test, in order, with their values as strings.\<close>

lemma foldl_append_filters:
  "foldl (\<lambda>params (key, value).
            if value \<noteq> JUndefined \<and> value \<noteq> JNull \<and> value \<noteq> JStr ''''
            then params @ [(key, js_ToString value)] else params) acc fs =
   acc @ map (\<lambda>(k, v). (k, js_ToString v))
           (filter (\<lambda>(k, v). v \<noteq> JUndefined \<and> v \<noteq> JNull \<and> v \<noteq> JStr '''') fs)"
  by (induction fs arbitrary: acc) (auto split: prod.splits)

lemma append_filters_eq:
  "append_filters fs =
   map (\<lambda>(k, v). (k, js_ToString v))
     (filter (\<lambda>(k, v). v \<noteq> JUndefined \<and> v \<noteq> JNull \<and> v \<noteq> JStr '''') fs)"
  by (simp add: append_filters_def foldl_append_filters)

lemma digits_12: "digits 12 = ''12''"
  by (simp add: digits.simps)

lemma params_named_absent:
  "map_of fs k = None \<Longrightarrow> params_named k (append_filters fs) = []"
  by (induction fs) (auto simp: append_filters_eq params_named_def split: if_splits)

lemma params_named_present:
  "distinct (map fst fs) \<Longrightarrow> map_of fs k = Some v \<Longrightarrow>
   v \<noteq> JUndefined \<and> v \<noteq> JNull \<and> v \<noteq> JStr '''' \<Longrightarrow>
   params_named k (append_filters fs) = [js_ToString v]"
proof (induction fs)
  case Nil
  then show ?case by simp
next
  case (Cons a fs)
  obtain k' v' where a: "a = (k', v')" by (cases a)
  show ?case
  proof (cases "k' = k")
    case True
    with Cons.prems a have v: "v' = v" and "k \<notin> fst ` set fs" by auto
    then have "map_of fs k = None" by (simp add: map_of_eq_None_iff)
    then have "params_named k (append_filters fs) = []" by (rule params_named_absent)
    with True a v Cons.prems(3) show ?thesis
      by (simp add: append_filters_eq params_named_def)
  next
    case False
    with Cons a have "params_named k (append_filters fs) = [js_ToString v]" by simp
    with False a show ?thesis
      by (simp add: append_filters_eq params_named_def)
  qed
qed

lemma truthy_retained: "truthy v \<Longrightarrow> v \<noteq> JUndefined \<and> v \<noteq> JNull \<and> v \<noteq> JStr ''''"
  by (cases v) auto

text \<open>
  C7, as the code has it. Both list hooks put into the query string exactly the filter
  entries whose value is not \<^verbatim>\<open>undefined\<close>, \<^verbatim>\<open>null\<close> or the empty string, in the
  order of the filter object. \<^verbatim>\<open>fetchMovies\<close> then appends one more \<^verbatim>\<open>limit\<close>
  parameter, \<^verbatim>\<open>filters.limit || 12\<close>; when the filter object has no \<^verbatim>\<open>limit\<close>, that is
  the query string's only \<^verbatim>\<open>limit\<close> and its value is 12. \<^verbatim>\<open>fetchSeries\<close> appends
  nothing: its query string has a \<^verbatim>\<open>limit\<close> only when the filter object provides one.
\<close>

theorem list_hooks_query_params:
  "fetchSeries_params fs =
     map (\<lambda>(k, v). (k, js_ToString v))
       (filter (\<lambda>(k, v). v \<noteq> JUndefined \<and> v \<noteq> JNull \<and> v \<noteq> JStr '''') fs)
   \<and> fetchMovies_params fs =
       fetchSeries_params fs @ [(''limit'', js_ToString (js_or (filters_limit fs) (JNum 12)))]
   \<and> (map_of fs ''limit'' = None \<longrightarrow>
        fetchMovies_params fs = fetchSeries_params fs @ [(''limit'', ''12'')]
        \<and> params_named ''limit'' (fetchMovies_params fs) = [''12'']
        \<and> params_named ''limit'' (fetchSeries_params fs) = [])"
  using params_named_absent [of fs "''limit''"]
  by (simp add: fetchSeries_params_def fetchMovies_params_def append_filters_eq [symmetric]
      filters_limit_def js_or_def digits_12 params_named_def)

theorem list_hooks_query_params_witness:
  "map_of [(''genre'', JStr ''drama''), (''year'', JStr ''''), (''q'', JNull)] ''limit'' = None
   \<and> fetchMovies_params [(''genre'', JStr ''drama''), (''year'', JStr ''''), (''q'', JNull)]
       = [(''genre'', ''drama''), (''limit'', ''12'')]
   \<and> fetchSeries_params [(''genre'', JStr ''drama''), (''year'', JStr ''''), (''q'', JNull)]
       = [(''genre'', ''drama'')]"
  using list_hooks_query_params [of "[(''genre'', JStr ''drama''), (''year'', JStr ''''), (''q'', JNull)]"]
  by (simp add: filters_limit_def js_or_def digits_12)

text \<open>
  C7 as stated fails for \<^verbatim>\<open>useSeries\<close>: with the empty filter object its request is
  \<^verbatim>\<open>/movies/series?\<close>, with no \<^verbatim>\<open>limit\<close> parameter.
\<close>

theorem fetchSeries_no_default_limit:
  "(''limit'', ''12'') \<notin> set (fetchSeries_params []) \<and> fetchSeries_url [] = ''/movies/series?''"
  by (simp add: url_defs)

text \<open>
  C10, as the code has it. Let the filter object of \<^verbatim>\<open>useMovies\<close> have a \<^verbatim>\<open>limit\<close>
  property of value \<open>v\<close>. When \<open>v\<close> is truthy, the query string has the \<^verbatim>\<open>limit\<close>
  parameter twice, both times with the value \<open>v\<close>. When \<open>v\<close> passes the loop's test and
  is falsy (\<^verbatim>\<open>0\<close>, \<^verbatim>\<open>false\<close>), the query string has it twice as well, first with the
  value \<open>v\<close> and then with the value 12.
\<close>

theorem fetchMovies_limit_twice:
  assumes "distinct (map fst fs)" and "map_of fs ''limit'' = Some v"
  shows "(truthy v \<longrightarrow>
           params_named ''limit'' (fetchMovies_params fs) = [js_ToString v, js_ToString v])
       \<and> (v \<noteq> JUndefined \<and> v \<noteq> JNull \<and> v \<noteq> JStr '''' \<and> \<not> truthy v \<longrightarrow>
           params_named ''limit'' (fetchMovies_params fs) = [js_ToString v, ''12''])"
proof -
  have split: "params_named ''limit'' (fetchMovies_params fs) =
      params_named ''limit'' (append_filters fs) @ [js_ToString (js_or v (JNum 12))]"
    using assms(2) by (simp add: fetchMovies_params_def params_named_def filters_limit_def)
  show ?thesis
    using params_named_present [OF assms] truthy_retained [of v]
    by (auto simp: split js_or_def digits_12)
qed

theorem fetchMovies_limit_twice_witness:
  "distinct (map fst [(''genre'', JStr ''drama''), (''limit'', JNum 20)])
   \<and> map_of [(''genre'', JStr ''drama''), (''limit'', JNum 20)] ''limit'' = Some (JNum 20)
   \<and> truthy (JNum 20)
   \<and> params_named ''limit'' (fetchMovies_params [(''genre'', JStr ''drama''), (''limit'', JNum 20)])
       = [''20'', ''20'']
   \<and> fetchMovies_url [(''genre'', JStr ''drama''), (''limit'', JNum 20)]
       = ''/movies?genre=drama&limit=20&limit=20''"
  using fetchMovies_limit_twice [of "[(''genre'', JStr ''drama''), (''limit'', JNum 20)]" "JNum 20"]
  by (simp add: url_defs)

text \<open>
  C10 as stated fails for the filter object \<^verbatim>\<open>{ limit: 0 }\<close>: its \<^verbatim>\<open>limit\<close> is present
  and neither empty, \<^verbatim>\<open>null\<close> nor \<^verbatim>\<open>undefined\<close>, and the two \<^verbatim>\<open>limit\<close> parameters of
  the query string differ.
\<close>

theorem fetchMovies_limit_zero:
  "params_named ''limit'' (fetchMovies_params [(''limit'', JNum 0)]) = [''0'', ''12'']
   \<and> fetchMovies_url [(''limit'', JNum 0)] = ''/movies?limit=0&limit=12''"
  by (simp add: url_defs)

section \<open>The movies list hook, end to end\<close>

lemma fetchMovies_url_drama:
  "fetchMovies_url [(''genre'', JStr ''drama'')] = ''/movies?genre=drama&limit=12''"
  by (simp add: url_defs)

text \<open>
  C6. A freshly loaded module has an empty cache. Mounting
  \<^verbatim>\<open>useMovies({ genre: 'drama' })\<close> sends one GET, to
  \<^verbatim>\<open>/movies?genre=drama&limit=12\<close>; when that request is answered by a response whose
  \<^verbatim>\<open>data\<close> is \<^verbatim>\<open>{ movies: [m1, m2, m3], total: 3, page: 1, pages: 1 }\<close>, the state of
  the hook is \<^verbatim>\<open>loading: false\<close>, \<^verbatim>\<open>error: null\<close>, the three movies, and the
  pagination \<^verbatim>\<open>{ total: 3, page: 1, pages: 1 }\<close>.
\<close>

theorem useMovies_drama_end_to_end:
  "\<exists>w1 w2.
     step (useMovies_mount Map.empty) (Render [(''genre'', JStr ''drama'')] t0) = Some w1
     \<and> network w1 = [''/movies?genre=drama&limit=12'']
     \<and> step w1 (Settle 0 (Inr (JObj ((''data'',
            JObj [(''movies'', JArr [m1, m2, m3]), (''total'', JNum 3), (''page'', JNum 1),
                  (''pages'', JNum 1)]) # rest))) t1) = Some w2
     \<and> network w2 = network w1
     \<and> hook w2 = \<lparr>loading = False, error = JNull,
                   pagination = JObj [(''total'', JNum 3), (''page'', JNum 1), (''pages'', JNum 1)],
                   movies = JArr [m1, m2, m3], isDataLoaded = True\<rparr>"
  by (simp add: fetchMovies_url_drama movies_defs)

text \<open>
  C5, at a failing run. The hook is mounted with the filter \<^verbatim>\<open>genre: 'drama'\<close> (request
  0), and \<^verbatim>\<open>refetch\<close> is called while request 0 is pending: request 0 is aborted and
  request 1 is sent. When the aborted request 0 rejects, its \<^verbatim>\<open>finally\<close> block sets
  \<^verbatim>\<open>abortControllerRef.current\<close> to \<^verbatim>\<open>null\<close>, although the ref holds the controller
  of request 1 by then. The filter changes to \<^verbatim>\<open>genre: 'comedy'\<close>: neither the cleanup
  nor the debounced \<^verbatim>\<open>fetchMovies\<close> finds a controller to abort, and request 2 is sent
  while request 1 is still in flight. The response to request 2 arrives first, the
  response to request 1 after it: the hook ends with the drama movies under the comedy
  filter.
\<close>

theorem useMovies_two_requests_in_flight:
  "\<exists>w w'.
     run (useMovies_mount Map.empty)
       [Render [(''genre'', JStr ''drama'')] 0,
        Refetch 10,
        Settle 0 (Inl (js_error ''AbortError'' ''canceled'')) 11,
        Render [(''genre'', JStr ''comedy'')] 500,
        Timeout 1 650] = Some w
     \<and> network w = [''/movies?genre=drama&limit=12'', ''/movies?genre=drama&limit=12'',
                     ''/movies?genre=comedy&limit=12'']
     \<and> in_flight w = [1, 2]
     \<and> run w
         [Settle 2 (Inr (JObj [(''data'', JObj [(''movies'', JArr [JStr ''comedy 1'']),
                                 (''total'', JNum 1), (''page'', JNum 1), (''pages'', JNum 1)])])) 700,
          Settle 1 (Inr (JObj [(''data'', JObj [(''movies'', JArr [JStr ''drama 1'', JStr ''drama 2'']),
                                 (''total'', JNum 2), (''page'', JNum 1), (''pages'', JNum 1)])])) 900]
        = Some w'
     \<and> filters w' = [(''genre'', JStr ''comedy'')]
     \<and> movies (hook w') = JArr [JStr ''drama 1'', JStr ''drama 2'']"
  by (simp add: url_defs movies_defs)

text \<open>
  The branch of line 95. When a network request of \<^verbatim>\<open>fetchMovies\<close> rejects with a
  value whose \<^verbatim>\<open>name\<close> is \<^verbatim>\<open>'AbortError'\<close>, the hook's state changes in
  \<^verbatim>\<open>loading\<close> only, which becomes false: \<^verbatim>\<open>error\<close>, \<^verbatim>\<open>movies\<close> and
  \<^verbatim>\<open>pagination\<close> are what they were. The cache is not written and nothing is thrown.
\<close>

lemma fetchMovies_AbortError_branch:
  assumes "map_of (pending w) c = Some p" and "req_cached p = None"
    and "get_prop err ''name'' = Inr (JStr ''AbortError'')"
  shows "\<exists>w'. settle w c (Inl err) now = Some w'
           \<and> hook w' = (hook w)\<lparr>loading := False\<rparr>
           \<and> error (hook w') = error (hook w)
           \<and> movies (hook w') = movies (hook w)
           \<and> pagination (hook w') = pagination (hook w)
           \<and> cache w' = cache w \<and> unhandled w' = unhandled w"
  using assms
  by (simp add: settle_def cachedApi_get_settled_def fetchMovies_resume_def
      fetchMovies_catch_def Let_def)

text \<open>
  C4, at a failing input. The requests of \<^verbatim>\<open>fetchMovies\<close> are sent by axios (lines 2,
  6 and 33), and a request of axios whose signal is aborted rejects with an error whose
  \<^verbatim>\<open>name\<close> is \<^verbatim>\<open>'CanceledError'\<close> and which has no \<^verbatim>\<open>response\<close>. The test of line
  95 does not recognise it. In the run below the drama movies are loaded, the filter
  changes to comedy and the debounced request 1 is sent, and \<^verbatim>\<open>refetch\<close> aborts request
  1 while it is pending. When the aborted request 1 rejects, the \<^verbatim>\<open>catch\<close> block goes
  on to \<^verbatim>\<open>setError\<close>: the error state, which was \<^verbatim>\<open>null\<close>, becomes
  \<^verbatim>\<open>'Failed to fetch movies'\<close>.
\<close>

theorem useMovies_abort_sets_error:
  "\<exists>w w'.
     run (useMovies_mount Map.empty)
       [Render [(''genre'', JStr ''drama'')] 0,
        Settle 0 (Inr (JObj [(''data'', JObj [(''movies'', JArr [JStr ''drama 1'', JStr ''drama 2'']),
                               (''total'', JNum 2), (''page'', JNum 1), (''pages'', JNum 1)])])) 40,
        Render [(''genre'', JStr ''comedy'')] 500,
        Timeout 1 650,
        Refetch 700] = Some w
     \<and> map_of (pending w) 1
         = Some \<lparr>req_url = ''/movies?genre=comedy&limit=12'', req_options = Signal 1,
                 req_aborted = True, req_cached = None\<rparr>
     \<and> error (hook w) = JNull
     \<and> settle w 1 (Inl (js_error ''CanceledError'' ''canceled'')) 701 = Some w'
     \<and> error (hook w') = JStr ''Failed to fetch movies''
     \<and> hook w' = (hook w)\<lparr>loading := False, error := JStr ''Failed to fetch movies''\<rparr>"
  by (simp add: url_defs movies_defs)

section \<open>The memoizing GET wrapper: what a hit returns\<close>

text \<open>The time window of the cache, and the replacement of an entry.\<close>

lemma cachedApi_get_fresh:
  "c (cacheKey u opts) = Some (d, ts) \<Longrightarrow> now - ts < 300000 \<Longrightarrow>
   cachedApi_get_cached c u opts now = Some d"
  by (simp add: cachedApi_get_cached_def)

lemma cachedApi_get_stale:
  "c (cacheKey u opts) = Some (d, ts) \<Longrightarrow> \<not> now - ts < 300000 \<Longrightarrow>
   cachedApi_get_cached c u opts now = None"
  by (simp add: cachedApi_get_cached_def)

lemma cachedApi_get_replaces:
  "get_prop response ''data'' = Inr d \<Longrightarrow>
   cachedApi_get_settled c u opts (Inr response) now = (c', r) \<Longrightarrow>
   r = Inr response \<and> c' (cacheKey u opts) = Some (d, now)"
  by (auto simp: cachedApi_get_settled_def)

lemma cachedApi_get_rejection_not_cached:
  "cachedApi_get_settled c u opts (Inl err) now = (c, Inl err)"
  by (simp add: cachedApi_get_settled_def)

text \<open>
  C1, at a failing input. With an empty cache, a first call goes to the network and
  returns the response object, \<^verbatim>\<open>{ data: { movies, total }, status: 200 }\<close>. A second
  call with the same URL and options one millisecond later goes to the cache and returns
  the stored \<^verbatim>\<open>response.data\<close>, that is \<^verbatim>\<open>{ movies, total }\<close>: not the value the first
  call returned.
\<close>

theorem cachedApi_get_hit_returns_data:
  "\<exists>c1. cachedApi_get_cached Map.empty u opts t0 = None
     \<and> cachedApi_get_settled Map.empty u opts
          (Inr (JObj [(''data'', JObj [(''movies'', ms), (''total'', n)]), (''status'', JNum 200)])) t0
        = (c1, Inr (JObj [(''data'', JObj [(''movies'', ms), (''total'', n)]), (''status'', JNum 200)]))
     \<and> cachedApi_get_cached c1 u opts (t0 + 1) = Some (JObj [(''movies'', ms), (''total'', n)])
     \<and> JObj [(''movies'', ms), (''total'', n)]
         \<noteq> JObj [(''data'', JObj [(''movies'', ms), (''total'', n)]), (''status'', JNum 200)]"
  by (simp add: cachedApi_get_cached_def cachedApi_get_settled_def)

text \<open>
  What the hit does to its caller: after the run of C6, a \<^verbatim>\<open>refetch\<close> within the window
  sends nothing, \<^verbatim>\<open>fetchMovies\<close> reads \<^verbatim>\<open>response.data.movies\<close> of the cached body, and
  the hook ends in its error state.
\<close>

lemma useMovies_cache_hit_fails:
  "\<exists>w. run (useMovies_mount Map.empty)
         [Render [(''genre'', JStr ''drama'')] 0,
          Settle 0 (Inr (JObj [(''data'', JObj [(''movies'', JArr [m1, m2, m3]), (''total'', JNum 3),
                                 (''page'', JNum 1), (''pages'', JNum 1)])])) 40,
          Refetch 1000,
          Settle 1 outcome 1001] = Some w
     \<and> network w = [''/movies?genre=drama&limit=12'']
     \<and> error (hook w) = JStr ''Failed to fetch movies''"
  by (simp add: fetchMovies_url_drama movies_defs js_or_def)

section \<open>The single movie hook: a failing request\<close>

text \<open>
  C2, at a failing input. When the GET of \<^verbatim>\<open>useMovie\<close> rejects, the \<^verbatim>\<open>catch\<close> block
  throws before it reaches \<^verbatim>\<open>setError\<close>: \<^verbatim>\<open>fetchMovie\<close> ends by throwing, with
  \<^verbatim>\<open>loading\<close> cleared by the \<^verbatim>\<open>finally\<close> block and the error state as it was. For a
  rejection with an error object the thrown value is the ReferenceError of \<^verbatim>\<open>params\<close>.
\<close>

theorem fetchMovie_failure_throws:
  "(\<exists>e. fetchMovie_resume h (Inl err) = (h\<lparr>loading := False\<rparr>, Some e))
   \<and> fetchMovie_resume h (Inl (JObj ps))
       = (h\<lparr>loading := False\<rparr>, Some (ReferenceError ''params''))"
  by (cases err)
     (simp_all add: fetchMovie_resume_def fetchMovie_catch_def fetchMovie_catch_scope_def
        scope_defs)

section \<open>The statistics hook: refetch\<close>

lemma fetchStats_scope:
  "''fetchStats'' \<in> set useStats_effect_scope
   \<and> ''fetchStats'' \<notin> set (concat useStats_refetch_scope)"
  by (simp add: useStats_effect_scope_def useStats_refetch_scope_def module_scope_def
      global_scope_def)

text \<open>
  C9. Every call of the \<^verbatim>\<open>refetch\<close> that \<^verbatim>\<open>useStats\<close> returns throws the
  ReferenceError of \<^verbatim>\<open>fetchStats\<close>, and leaves the state of the hook and the network
  untouched.
\<close>

theorem useStats_refetch_throws:
  "useStats_refetch w = (w, Some (ReferenceError ''fetchStats''))"
  by (simp add: useStats_refetch_def useStats_refetch_scope_def scope_defs)

section \<open>The series list hook: filter changes\<close>

lemma useSeries_effect_after_mount:
  "\<not> isInitialLoadRef w \<Longrightarrow> foldl useSeries_effect w fss = w"
  by (induction fss) (simp_all add: useSeries_effect_def)

text \<open>
  C3, as the code has it. The first run of the effect of \<^verbatim>\<open>useSeries\<close> sets
  \<^verbatim>\<open>loading\<close> and sends the GET for the filters of the mount. Whatever filters the
  later renders bring, the effect does nothing: the world stays as the mount left it, with
  that one request. A new request is sent only by \<^verbatim>\<open>refetch\<close>, at once and with the
  filters of the render it comes from.
\<close>

theorem useSeries_fetches_on_mount_only:
  "network (useSeries_effect useSeries_mount fs0) = [fetchSeries_url fs0]
   \<and> loading (hook (useSeries_effect useSeries_mount fs0))
   \<and> foldl useSeries_effect (useSeries_effect useSeries_mount fs0) fss
       = useSeries_effect useSeries_mount fs0
   \<and> useSeries_refetch w fs = w\<lparr>network := network w @ [fetchSeries_url fs]\<rparr>"
proof -
  have "\<not> isInitialLoadRef (useSeries_effect useSeries_mount fs0)"
    by (simp add: useSeries_effect_def useSeries_mount_def fetchSeries_def)
  then show ?thesis
    by (simp add: useSeries_effect_after_mount)
       (simp add: useSeries_effect_def useSeries_mount_def fetchSeries_def useSeries_refetch_def)
qed

text \<open>
  C3 as stated fails: after the mount with the empty filter object, the render with the
  filter \<^verbatim>\<open>genre: 'drama'\<close> changes nothing. No timer is set, and the only request ever
  sent is \<^verbatim>\<open>/movies/series?\<close>.
\<close>

theorem useSeries_ignores_filter_change:
  "useSeries_effect (useSeries_effect useSeries_mount []) [(''genre'', JStr ''drama'')]
     = useSeries_effect useSeries_mount []
   \<and> network (useSeries_effect (useSeries_effect useSeries_mount []) [(''genre'', JStr ''drama'')])
     = [''/movies/series?'']"
  by (simp add: useSeries_effect_def useSeries_mount_def fetchSeries_def url_defs)

section \<open>The search suggestions hook\<close>

text \<open>
  C8. For a missing query and for a query shorter than two characters,
  \<^verbatim>\<open>fetchSuggestions\<close> sets the suggestions to the empty list and sends nothing. When
  its GET rejects, whatever the rejection, it sets the suggestions to the empty list and
  clears \<^verbatim>\<open>loading\<close>; the hook has no error state, and nothing is thrown.
\<close>

theorem useSearchSuggestions_short_or_failed:
  "fetchSuggestions w None = w\<lparr>hook := (hook w)\<lparr>suggestions := JArr []\<rparr>\<rparr>
   \<and> (length q < 2 \<longrightarrow>
        fetchSuggestions w (Some q) = w\<lparr>hook := (hook w)\<lparr>suggestions := JArr []\<rparr>\<rparr>
        \<and> network (fetchSuggestions w (Some q)) = network w)
   \<and> fetchSuggestions_resume h (Inl err) = (h\<lparr>suggestions := JArr [], loading := False\<rparr>, None)"
  by (simp add: fetchSuggestions_def fetchSuggestions_resume_def)

theorem useSearchSuggestions_short_or_failed_witness:
  "length ''a'' < 2
   \<and> fetchSuggestions useSearchSuggestions_init (Some ''a'') = useSearchSuggestions_init
   \<and> network (fetchSuggestions useSearchSuggestions_init (Some ''a'')) = []"
  using useSearchSuggestions_short_or_failed [of useSearchSuggestions_init "''a''"]
  by (simp add: useSearchSuggestions_init_def)

end
